theory Spec2Isabelle
  imports Main
begin

section \<open>The probe side of the hash join: data model\<close>

text \<open>
  The theory embeds \<^verbatim>\<open>velox/exec/HashProbe.cpp\<close>. Row numbers (\<^verbatim>\<open>vector_size_t\<close>)
  are natural numbers, a build-row pointer (\<^verbatim>\<open>char*\<close>) is a number and \<^verbatim>\<open>nullptr\<close>
  is \<open>None\<close>. A failed \<^verbatim>\<open>VELOX_CHECK\<close>, a dereferenced null pointer and an access
  past the end of a vector or buffer are error values. Hash values, lazy loading of
  input columns, the reuse of output vectors and runtime statistics are left out: the
  operator's results do not depend on them.
\<close>

datatype JoinType = kInner | kLeft | kRight | kFull | kLeftSemi | kRightSemi | kNullAwareAnti

definition isInnerJoin :: "JoinType \<Rightarrow> bool" where
  "isInnerJoin t = (t = kInner)"

definition isLeftJoin :: "JoinType \<Rightarrow> bool" where
  "isLeftJoin t = (t = kLeft)"

definition isRightJoin :: "JoinType \<Rightarrow> bool" where
  "isRightJoin t = (t = kRight)"

definition isFullJoin :: "JoinType \<Rightarrow> bool" where
  "isFullJoin t = (t = kFull)"

definition isLeftSemiJoin :: "JoinType \<Rightarrow> bool" where
  "isLeftSemiJoin t = (t = kLeftSemi)"

definition isRightSemiJoin :: "JoinType \<Rightarrow> bool" where
  "isRightSemiJoin t = (t = kRightSemi)"

definition isNullAwareAntiJoin :: "JoinType \<Rightarrow> bool" where
  "isNullAwareAntiJoin t = (t = kNullAwareAnti)"

lemmas joinTypeTests =
  isInnerJoin_def isLeftJoin_def isRightJoin_def isFullJoin_def
  isLeftSemiJoin_def isRightSemiJoin_def isNullAwareAntiJoin_def

datatype HashMode = kHash | kArray | kNormalizedKey

datatype BlockingReason = kNotBlocked | kWaitForJoinBuild

datatype error = CheckFailed | NullPointer | OutOfRange

type_synonym row_ptr = nat

type_synonym RowVector = "int option list list"

subsection \<open>Errors and loops\<close>

definition bindE :: "error + 'a \<Rightarrow> ('a \<Rightarrow> error + 'b) \<Rightarrow> error + 'b" where
  "bindE m f = (case m of Inl e \<Rightarrow> Inl e | Inr x \<Rightarrow> f x)"

text \<open>\<open>load\<close> and \<open>store\<close> are \<^verbatim>\<open>v[i]\<close> read and written; past the end they fail.\<close>

definition load :: "'a list \<Rightarrow> nat \<Rightarrow> error + 'a" where
  "load xs i = (if i < length xs then Inr (xs ! i) else Inl OutOfRange)"

definition store :: "'a list \<Rightarrow> nat \<Rightarrow> 'a \<Rightarrow> error + 'a list" where
  "store xs i v = (if i < length xs then Inr (xs[i := v]) else Inl OutOfRange)"

text \<open>\<^verbatim>\<open>for (auto i = 0; i < n; ++i) body\<close> is \<open>forEach body [0..<n]\<close>.\<close>

fun forEach :: "('i \<Rightarrow> 's \<Rightarrow> error + 's) \<Rightarrow> 'i list \<Rightarrow> 's \<Rightarrow> error + 's" where
  "forEach f [] s = Inr s"
| "forEach f (i # is) s = (case f i s of Inl e \<Rightarrow> Inl e | Inr s' \<Rightarrow> forEach f is s')"

fun mapE :: "('i \<Rightarrow> error + 'b) \<Rightarrow> 'i list \<Rightarrow> error + 'b list" where
  "mapE f [] = Inr []"
| "mapE f (i # is) =
     (case f i of Inl e \<Rightarrow> Inl e
      | Inr y \<Rightarrow> (case mapE f is of Inl e \<Rightarrow> Inl e | Inr ys \<Rightarrow> Inr (y # ys)))"

subsection \<open>The hash table, the lookup and the result cursor\<close>

text \<open>
  The join filter: its value on a probe row and a build row (or no build row), which may
  be null; the bit that the result vector stores where the value is null; and whether
  the filter propagates nulls.
\<close>

record Expr =
  evalExpr :: "int option list \<Rightarrow> row_ptr option \<Rightarrow> bool option"
  storedBit :: "int option list \<Rightarrow> row_ptr option \<Rightarrow> bool"
  propagatesNulls :: bool

text \<open>
  Modelled from the spec: the class \<^verbatim>\<open>BaseHashTable\<close> and its row container are not in
  the source. The table gives, for the key values of a probe row, the head of the chain
  of build rows with the same key (\<open>lookupKey\<close>) and for a build row the rest of its chain
  (\<open>nextRows\<close>); \<open>knownKey i v\<close> says that value \<open>v\<close> of key \<open>i\<close> has a value id;
  \<open>hasherFilter i\<close> that the build hasher of key \<open>i\<close> yields a filter; \<open>containerRows\<close>
  are the rows of the row container in listing order, \<open>nullKeyRow\<close> those with a null
  key, and \<open>probed\<close> the rows whose probed flag is set.
\<close>

record BaseHashTable =
  numDistinct :: nat
  hasDuplicateKeys :: bool
  hashMode :: HashMode
  lookupKey :: "int option list \<Rightarrow> row_ptr option"
  nextRows :: "row_ptr \<Rightarrow> row_ptr list"
  knownKey :: "nat \<Rightarrow> int option \<Rightarrow> bool"
  hasherFilter :: "nat \<Rightarrow> bool"
  containerRows :: "row_ptr list"
  nullKeyRow :: "row_ptr \<Rightarrow> bool"
  probed :: "row_ptr set"

record HashLookup =
  rows :: "nat list"
  hits :: "row_ptr option list"

text \<open>
  Modelled from the spec: \<^verbatim>\<open>JoinResultIterator\<close> and \<^verbatim>\<open>listJoinResults\<close> are not in the
  source. The cursor holds, for each row of the lookup not yet finished, the build rows
  still to be paired with it (none: a miss). One step fills up to \<open>cap\<close> pairs, walking
  the duplicate chains, with a pair \<open>(row, null)\<close> for a miss when misses are included.
\<close>

record JoinResultIterator =
  pending :: "(nat \<times> row_ptr list) list"

definition chainOf :: "BaseHashTable \<Rightarrow> row_ptr option \<Rightarrow> row_ptr list" where
  "chainOf t h = (case h of None \<Rightarrow> [] | Some b \<Rightarrow> b # nextRows t b)"

definition reset :: "BaseHashTable \<Rightarrow> HashLookup \<Rightarrow> JoinResultIterator" where
  "reset t l = \<lparr>pending = map (\<lambda>r. (r, chainOf t (hits l ! r))) (rows l)\<rparr>"

definition atEnd :: "JoinResultIterator \<Rightarrow> bool" where
  "atEnd it = (pending it = [])"

fun listPairs ::
  "bool \<Rightarrow> nat \<Rightarrow> (nat \<times> row_ptr list) list
    \<Rightarrow> (nat \<times> row_ptr option) list \<times> (nat \<times> row_ptr list) list" where
  "listPairs inc 0 p = ([], p)"
| "listPairs inc (Suc n) [] = ([], [])"
| "listPairs inc (Suc n) ((r, []) # p) =
     (if inc then (case listPairs inc n p of (out, p') \<Rightarrow> ((r, None) # out, p'))
      else listPairs inc (Suc n) p)"
| "listPairs inc (Suc n) ((r, [b]) # p) =
     (case listPairs inc n p of (out, p') \<Rightarrow> ((r, Some b) # out, p'))"
| "listPairs inc (Suc n) ((r, b # b' # bs) # p) =
     (case listPairs inc n ((r, b' # bs) # p) of (out, p') \<Rightarrow> ((r, Some b) # out, p'))"

subsection \<open>The trackers of the residual filter\<close>

text \<open>
  Modelled from the spec: the class \<^verbatim>\<open>NoMatchDetector\<close> is declared in the header, which
  is not in the source. It tracks the current probe-row id, noting whether any pair has
  passed; on row-id change it flushes a synthetic miss if none passed; \<open>finish\<close> is the
  final flush.
\<close>

record NoMatchDetector =
  currentRow :: "nat option"
  currentRowPassed :: bool

definition noMatchAdvance ::
  "nat \<Rightarrow> bool \<Rightarrow> (nat \<Rightarrow> 'a \<Rightarrow> error + 'a) \<Rightarrow> NoMatchDetector \<times> 'a
    \<Rightarrow> error + NoMatchDetector \<times> 'a" where
  "noMatchAdvance row passed onMiss st =
     (case st of (d, out) \<Rightarrow>
       if currentRow d \<noteq> Some row then
         bindE (case currentRow d of
                  None \<Rightarrow> Inr out
                | Some r \<Rightarrow> if currentRowPassed d then Inr out else onMiss r out)
           (\<lambda>out'. Inr (\<lparr>currentRow = Some row, currentRowPassed = passed\<rparr>, out'))
       else Inr (d\<lparr>currentRowPassed := currentRowPassed d \<or> passed\<rparr>, out))"

definition noMatchFinish ::
  "(nat \<Rightarrow> 'a \<Rightarrow> error + 'a) \<Rightarrow> NoMatchDetector \<times> 'a \<Rightarrow> error + NoMatchDetector \<times> 'a" where
  "noMatchFinish onMiss st =
     (case st of (d, out) \<Rightarrow>
       bindE (case currentRow d of
                None \<Rightarrow> Inr out
              | Some r \<Rightarrow> if currentRowPassed d then Inr out else onMiss r out)
         (\<lambda>out'. Inr (d\<lparr>currentRow := None\<rparr>, out')))"

text \<open>
  Modelled from the spec: the class \<^verbatim>\<open>LeftSemiJoinTracker\<close> is declared in the header,
  which is not in the source. It emits at most one output per probe row, on the first
  pair whose filter passes; \<open>advance\<close> is called for the passing pairs only.
\<close>

record LeftSemiJoinTracker =
  semiCurrentRow :: "nat option"

definition leftSemiAdvance ::
  "nat \<Rightarrow> (nat \<Rightarrow> 'a \<Rightarrow> error + 'a) \<Rightarrow> LeftSemiJoinTracker \<times> 'a
    \<Rightarrow> error + LeftSemiJoinTracker \<times> 'a" where
  "leftSemiAdvance row onMatch st =
     (case st of (t, out) \<Rightarrow>
       if semiCurrentRow t \<noteq> Some row then
         bindE (onMatch row out) (\<lambda>out'. Inr (\<lparr>semiCurrentRow = Some row\<rparr>, out'))
       else Inr (t, out))"

definition leftSemiFinish ::
  "(nat \<Rightarrow> 'a \<Rightarrow> error + 'a) \<Rightarrow> LeftSemiJoinTracker \<times> 'a
    \<Rightarrow> error + LeftSemiJoinTracker \<times> 'a" where
  "leftSemiFinish onMatch st = (case st of (t, out) \<Rightarrow> Inr (\<lparr>semiCurrentRow = None\<rparr>, out))"

subsection \<open>The operator\<close>

text \<open>
  A selectivity vector is a list of bits. The fields of the operator keep the names of
  the members of \<^verbatim>\<open>HashProbe\<close> without the trailing underscore; \<open>filterP\<close> is
  \<^verbatim>\<open>filter_\<close> and \<open>noMoreInputFlag\<close> is \<^verbatim>\<open>noMoreInput_\<close>. \<open>dynamicFilters\<close> lists the
  channels that have a dynamic filter.
\<close>

record HashProbe =
  outputBatchSize :: nat
  joinType :: JoinType
  keyChannels :: "nat list"
  filterP :: "Expr option"
  filterProbeInputs :: "nat list"
  tableResultProjections :: "(nat \<times> nat) list"
  dynamicFilters :: "nat list"
  table :: "BaseHashTable option"
  finished :: bool
  noMoreInputFlag :: bool
  lastProbe :: bool
  lastProbeIterator :: nat
  canReplaceWithDynamicFilter :: bool
  replacedWithDynamicFilter :: bool
  input :: "RowVector option"
  nonNullRows :: "bool list"
  activeRows :: "bool list"
  lookup :: HashLookup
  results :: JoinResultIterator
  rowNumberMapping :: "nat list"
  outputRows :: "row_ptr option list"
  noMatchDetector :: NoMatchDetector
  leftSemiJoinTracker :: LeftSemiJoinTracker
  nullFilterProbeInputRows :: "bool list"
  filterRows :: "bool list"

definition isAllSelected :: "bool list \<Rightarrow> bool" where
  "isAllSelected v = list_all (\<lambda>b. b) v"

definition hasSelections :: "bool list \<Rightarrow> bool" where
  "hasSelections v = list_ex (\<lambda>b. b) v"

definition selected :: "bool list \<Rightarrow> nat list" where
  "selected v = filter (\<lambda>i. v ! i) [0..<length v]"

definition kBatchSize :: nat where
  "kBatchSize = 1024"

section \<open>The residual filter\<close>

text \<open>
  A row of a decoded boolean vector is its null flag and the bit it stores.
  \<^verbatim>\<open>isNullAt\<close> reads the flag; \<^verbatim>\<open>valueAt<bool>\<close> reads the stored bit and does not
  look at the flag. The test
  \<^verbatim>\<open>!decodedFilterResult_.isNullAt(i) && decodedFilterResult_.valueAt<bool>(i)\<close> is
  \<open>filterPassed\<close>.
\<close>

type_synonym DecodedVector = "(bool \<times> bool) list"

definition isNullAt :: "DecodedVector \<Rightarrow> nat \<Rightarrow> bool" where
  "isNullAt d i = fst (d ! i)"

definition valueAt :: "DecodedVector \<Rightarrow> nat \<Rightarrow> bool" where
  "valueAt d i = snd (d ! i)"

definition filterPassed :: "DecodedVector \<Rightarrow> nat \<Rightarrow> bool" where
  "filterPassed d i = (\<not> isNullAt d i \<and> valueAt d i)"

text \<open>The row that the filter result holds for a probe row and a build row.\<close>

definition decodeRow :: "Expr \<Rightarrow> int option list \<Rightarrow> row_ptr option \<Rightarrow> bool \<times> bool" where
  "decodeRow f row b =
     (case evalExpr f row b of None \<Rightarrow> (True, storedBit f row b) | Some v \<Rightarrow> (False, v))"

text \<open>
  The loops of \<^verbatim>\<open>evalFilter\<close> compact \<^verbatim>\<open>outputRows_\<close> and the row number mapping in
  place, counting in \<^verbatim>\<open>numPassed\<close>.
\<close>

record Compacted =
  outRows :: "row_ptr option list"
  outMapping :: "nat list"
  numPassed :: nat

text \<open>The lambdas \<^verbatim>\<open>addMiss\<close> and \<^verbatim>\<open>addLastMatch\<close> (they have the same body).\<close>

definition addMiss :: "nat \<Rightarrow> Compacted \<Rightarrow> error + Compacted" where
  "addMiss row c =
     bindE (store (outRows c) (numPassed c) None) (\<lambda>rs.
     bindE (store (outMapping c) (numPassed c) row) (\<lambda>ms.
     Inr \<lparr>outRows = rs, outMapping = ms, numPassed = Suc (numPassed c)\<rparr>))"

text \<open>
  \<^verbatim>\<open>outputRows_[numPassed] = outputRows_[i]; rawMapping[numPassed++] = rawMapping[i];\<close>
\<close>

definition keepRow :: "nat \<Rightarrow> Compacted \<Rightarrow> error + Compacted" where
  "keepRow i c =
     bindE (load (outRows c) i) (\<lambda>b.
     bindE (store (outRows c) (numPassed c) b) (\<lambda>rs.
     bindE (load (outMapping c) i) (\<lambda>m.
     bindE (store (outMapping c) (numPassed c) m) (\<lambda>ms.
     Inr \<lparr>outRows = rs, outMapping = ms, numPassed = Suc (numPassed c)\<rparr>))))"

text \<open>The body of the loop for left and full joins.\<close>

definition leftJoinStep ::
  "DecodedVector \<Rightarrow> nat \<Rightarrow> NoMatchDetector \<times> Compacted
    \<Rightarrow> error + NoMatchDetector \<times> Compacted" where
  "leftJoinStep d i st =
     bindE (load (outMapping (snd st)) i) (\<lambda>row.
     bindE (noMatchAdvance row (filterPassed d i) addMiss st) (\<lambda>st'.
       if filterPassed d i
       then bindE (keepRow i (snd st')) (\<lambda>c. Inr (fst st', c))
       else Inr st'))"

text \<open>The body of the loop for the left semi join.\<close>

definition leftSemiStep ::
  "DecodedVector \<Rightarrow> nat \<Rightarrow> LeftSemiJoinTracker \<times> Compacted
    \<Rightarrow> error + LeftSemiJoinTracker \<times> Compacted" where
  "leftSemiStep d i st =
     (if filterPassed d i
      then bindE (load (outMapping (snd st)) i) (\<lambda>row. leftSemiAdvance row addMiss st)
      else Inr st)"

text \<open>The body of the loop for inner, right and right semi joins.\<close>

definition innerStep :: "DecodedVector \<Rightarrow> nat \<Rightarrow> Compacted \<Rightarrow> error + Compacted" where
  "innerStep d i c = (if filterPassed d i then keepRow i c else Inr c)"

text \<open>
  \<^verbatim>\<open>fillFilterInput\<close>: row \<open>i\<close> of the filter input is the probe row named by the row
  number mapping at \<open>i\<close> and the build row \<^verbatim>\<open>outputRows_[i]\<close>.
\<close>

definition fillFilterInput ::
  "nat \<Rightarrow> HashProbe \<Rightarrow> error + (int option list \<times> row_ptr option) list" where
  "fillFilterInput numRows s =
     (case input s of
        None \<Rightarrow> Inl NullPointer
      | Some inp \<Rightarrow>
          mapE (\<lambda>i.
            bindE (load (rowNumberMapping s) i) (\<lambda>j.
            bindE (load inp j) (\<lambda>row.
            bindE (load (outputRows s) i) (\<lambda>b. Inr (row, b))))) [0..<numRows])"

definition prepareFilterRowsForNullAwareAntiJoin ::
  "Expr \<Rightarrow> (int option list \<times> row_ptr option) list \<Rightarrow> nat \<Rightarrow> HashProbe \<Rightarrow> HashProbe" where
  "prepareFilterRowsForNullAwareAntiJoin f filterInput numRows s =
     (let s1 =
        (if propagatesNulls f
         then s\<lparr>nullFilterProbeInputRows :=
                map (\<lambda>i. list_ex (\<lambda>p. fst (filterInput ! i) ! p = None) (filterProbeInputs s))
                  [0..<numRows]\<rparr>
         else s)
      in if \<not> isAllSelected (nonNullRows s1)
         then s1\<lparr>filterRows :=
                map (\<lambda>i. nonNullRows s1 ! (rowNumberMapping s1 ! i)) [0..<numRows]\<rparr>
         else s1)"

text \<open>
  \<^verbatim>\<open>filter_->eval\<close> on the selected rows of the filter input, decoded. The filter is
  not evaluated on a row that is not selected: the row reads as null, whatever bit it
  stores.
\<close>

definition decodeFilterResult ::
  "Expr \<Rightarrow> (int option list \<times> row_ptr option) list \<Rightarrow> bool list \<Rightarrow> nat \<Rightarrow> DecodedVector" where
  "decodeFilterResult f filterInput sel numRows =
     map (\<lambda>i. if sel ! i then decodeRow f (fst (filterInput ! i)) (snd (filterInput ! i))
              else (True, storedBit f (fst (filterInput ! i)) (snd (filterInput ! i))))
       [0..<numRows]"

subsection \<open>The null-aware anti join\<close>

function batchesOf :: "nat \<Rightarrow> 'a list \<Rightarrow> 'a list list" where
  "batchesOf n xs = (if n = 0 \<or> xs = [] then [] else take n xs # batchesOf n (drop n xs))"
  by pat_completeness auto
termination
  by (relation "measure (\<lambda>(n, xs). length xs)") auto

text \<open>
  \<^verbatim>\<open>testSelected\<close> holds when the function holds on every selected row. One batch of build
  rows passes for a probe row when the filter is true (and not null) on some selected
  build row.
\<close>

definition testSelected :: "bool list \<Rightarrow> (nat \<Rightarrow> bool) \<Rightarrow> bool" where
  "testSelected sel g = list_all (\<lambda>j. \<not> sel ! j \<or> g j) [0..<length sel]"

definition buildBatchPassed ::
  "Expr \<Rightarrow> int option list \<Rightarrow> bool list \<Rightarrow> row_ptr list \<Rightarrow> bool" where
  "buildBatchPassed f probeRow sel batch =
     (let d = map (\<lambda>b. decodeRow f probeRow (Some b)) batch
      in \<not> testSelected sel (\<lambda>j. isNullAt d j \<or> \<not> valueAt d j))"

definition testFilterOnBuildSide ::
  "Expr \<Rightarrow> BaseHashTable \<Rightarrow> RowVector \<Rightarrow> bool list \<Rightarrow> bool \<Rightarrow> bool list" where
  "testFilterOnBuildSide f t inp rws nullKeyRowsOnly =
     (if \<not> hasSelections rws then rws
      else fold (\<lambda>batch rs.
             let sel = (if nullKeyRowsOnly then map (nullKeyRow t) batch
                        else replicate (length batch) True)
             in map (\<lambda>i. if rs ! i \<and> buildBatchPassed f (inp ! i) sel batch then False else rs ! i)
                  [0..<length rs])
           (batchesOf kBatchSize (containerRows t)) rws)"

record AntiRows =
  skipRows :: "bool list"
  testNullKeyRows :: "bool list"
  testAllRows :: "bool list"

definition antiClassifyStep ::
  "Expr \<Rightarrow> DecodedVector \<Rightarrow> HashProbe \<Rightarrow> nat \<Rightarrow> AntiRows \<Rightarrow> error + AntiRows" where
  "antiClassifyStep f d s i ar =
     bindE (load (rowNumberMapping s) i) (\<lambda>j.
       if propagatesNulls f \<and> nullFilterProbeInputRows s ! i
       then Inr (ar\<lparr>skipRows := (skipRows ar)[i := True]\<rparr>)
       else if nonNullRows s ! j
       then (if filterPassed d i
             then Inr (ar\<lparr>skipRows := (skipRows ar)[i := True]\<rparr>)
             else Inr (ar\<lparr>testNullKeyRows := (testNullKeyRows ar)[j := True]\<rparr>))
       else Inr (ar\<lparr>testAllRows := (testAllRows ar)[j := True]\<rparr>))"

definition antiSkipStep :: "HashProbe \<Rightarrow> nat \<Rightarrow> AntiRows \<Rightarrow> error + AntiRows" where
  "antiSkipStep s i ar =
     bindE (load (rowNumberMapping s) i) (\<lambda>j.
       Inr (ar\<lparr>testNullKeyRows := (testNullKeyRows ar)[j := False],
               testAllRows := (testAllRows ar)[j := False]\<rparr>))"

definition antiEmitStep ::
  "Expr \<Rightarrow> DecodedVector \<Rightarrow> HashProbe \<Rightarrow> AntiRows \<Rightarrow> nat \<Rightarrow> NoMatchDetector \<times> Compacted
    \<Rightarrow> error + NoMatchDetector \<times> Compacted" where
  "antiEmitStep f d s ar i st =
     bindE (load (outMapping (snd st)) i) (\<lambda>j.
       let passed =
         (if propagatesNulls f \<and> nullFilterProbeInputRows s ! i then False
          else if nonNullRows s ! j
          then (if filterPassed d i then True else \<not> testNullKeyRows ar ! j)
          else \<not> testAllRows ar ! j)
       in noMatchAdvance j passed addMiss st)"

definition evalFilterInNullAwareAntiJoin ::
  "nat \<Rightarrow> Expr \<Rightarrow> DecodedVector \<Rightarrow> HashProbe \<Rightarrow> error + nat \<times> HashProbe" where
  "evalFilterInNullAwareAntiJoin numRows f d s =
     (case input s of
        None \<Rightarrow> Inl NullPointer
      | Some inp \<Rightarrow>
     (case table s of
        None \<Rightarrow> Inl NullPointer
      | Some t \<Rightarrow>
          bindE (forEach (antiClassifyStep f d s) [0..<numRows]
                  \<lparr>skipRows = replicate numRows False,
                   testNullKeyRows = replicate (length inp) False,
                   testAllRows = replicate (length inp) False\<rparr>) (\<lambda>ar1.
          bindE (forEach (antiSkipStep s) (selected (skipRows ar1)) ar1) (\<lambda>ar2.
            let ar3 = ar2\<lparr>testNullKeyRows :=
                          testFilterOnBuildSide f t inp (testNullKeyRows ar2) True\<rparr>;
                ar4 = ar3\<lparr>testAllRows :=
                          testFilterOnBuildSide f t inp (testAllRows ar3) False\<rparr>
            in
          bindE (forEach (antiEmitStep f d s ar4) [0..<numRows]
                  (noMatchDetector s,
                   \<lparr>outRows = outputRows s, outMapping = rowNumberMapping s, numPassed = 0\<rparr>))
            (\<lambda>st.
          bindE (if atEnd (results s) then noMatchFinish addMiss st else Inr st) (\<lambda>st'.
            Inr (numPassed (snd st'),
                 s\<lparr>outputRows := outRows (snd st'),
                   rowNumberMapping := outMapping (snd st'),
                   noMatchDetector := fst st'\<rparr>)))))))"

subsection \<open>evalFilter\<close>

text \<open>
  The part of \<^verbatim>\<open>evalFilter\<close> after the filter result is decoded: one loop for each kind
  of join.
\<close>

definition compactFiltered ::
  "nat \<Rightarrow> Expr \<Rightarrow> DecodedVector \<Rightarrow> HashProbe \<Rightarrow> error + nat \<times> HashProbe" where
  "compactFiltered numRows f d s =
     (let c0 = \<lparr>outRows = outputRows s, outMapping = rowNumberMapping s, numPassed = 0\<rparr> in
      if isLeftJoin (joinType s) \<or> isFullJoin (joinType s) then
        bindE (forEach (leftJoinStep d) [0..<numRows] (noMatchDetector s, c0)) (\<lambda>st.
        bindE (if atEnd (results s) then noMatchFinish addMiss st else Inr st) (\<lambda>st'.
          Inr (numPassed (snd st'),
               s\<lparr>outputRows := outRows (snd st'),
                 rowNumberMapping := outMapping (snd st'),
                 noMatchDetector := fst st'\<rparr>)))
      else if isLeftSemiJoin (joinType s) then
        bindE (forEach (leftSemiStep d) [0..<numRows] (leftSemiJoinTracker s, c0)) (\<lambda>st.
        bindE (if atEnd (results s) then leftSemiFinish addMiss st else Inr st) (\<lambda>st'.
          Inr (numPassed (snd st'),
               s\<lparr>outputRows := outRows (snd st'),
                 rowNumberMapping := outMapping (snd st'),
                 leftSemiJoinTracker := fst st'\<rparr>)))
      else if isNullAwareAntiJoin (joinType s) then
        evalFilterInNullAwareAntiJoin numRows f d s
      else
        bindE (forEach (innerStep d) [0..<numRows] c0) (\<lambda>c.
          Inr (numPassed c, s\<lparr>outputRows := outRows c, rowNumberMapping := outMapping c\<rparr>)))"

definition evalFilter :: "nat \<Rightarrow> HashProbe \<Rightarrow> error + nat \<times> HashProbe" where
  "evalFilter numRows s =
     (case filterP s of
        None \<Rightarrow> Inr (numRows, s)
      | Some f \<Rightarrow>
          bindE (fillFilterInput numRows s) (\<lambda>filterInput.
            let s1 = s\<lparr>filterRows := replicate numRows True\<rparr>;
                s2 = (if isNullAwareAntiJoin (joinType s1)
                      then prepareFilterRowsForNullAwareAntiJoin f filterInput numRows s1
                      else s1)
            in compactFiltered numRows f
                 (decodeFilterResult f filterInput (filterRows s2) numRows) s2))"

section \<open>Waiting for the build side\<close>

record HashBuildResult =
  antiJoinHasNullKeys :: bool
  buildTable :: BaseHashTable

text \<open>
  \<^verbatim>\<open>isBlocked\<close>. The first argument is what \<^verbatim>\<open>tableOrFuture\<close> returns, the second the
  channels that \<^verbatim>\<open>canPushdownFilters\<close> accepts. The buffers that
  \<^verbatim>\<open>prepareForNullAwareAntiJoinWithFilter\<close> allocates are not part of the model.
\<close>

definition pushedDownChannels :: "BaseHashTable \<Rightarrow> nat list \<Rightarrow> nat list \<Rightarrow> nat list" where
  "pushedDownChannels t keys channels =
     map (\<lambda>i. keys ! i)
       (filter (\<lambda>i. keys ! i \<in> set channels \<and> hasherFilter t i) [0..<length keys])"

definition isBlocked ::
  "HashBuildResult option \<Rightarrow> nat list \<Rightarrow> HashProbe \<Rightarrow> error + BlockingReason \<times> HashProbe" where
  "isBlocked hashBuildResult channels s =
     (if table s \<noteq> None then Inr (kNotBlocked, s)
      else case hashBuildResult of
        None \<Rightarrow> Inr (kWaitForJoinBuild, s)
      | Some r \<Rightarrow>
          if antiJoinHasNullKeys r then
            (if isNullAwareAntiJoin (joinType s)
             then Inr (kNotBlocked, s\<lparr>finished := True\<rparr>)
             else Inl CheckFailed)
          else
            let t = buildTable r;
                s1 = s\<lparr>table := Some t\<rparr>
            in
            if numDistinct t = 0 then
              (if isInnerJoin (joinType s1) \<or> isLeftSemiJoin (joinType s1) \<or>
                  isRightJoin (joinType s1) \<or> isRightSemiJoin (joinType s1)
               then Inr (kNotBlocked, s1\<lparr>finished := True\<rparr>)
               else Inr (kNotBlocked, s1))
            else if (isInnerJoin (joinType s1) \<or> isLeftSemiJoin (joinType s1) \<or>
                     isRightSemiJoin (joinType s1)) \<and> hashMode t \<noteq> kHash
            then Inr (kNotBlocked,
                      s1\<lparr>dynamicFilters :=
                           dynamicFilters s1 @ pushedDownChannels t (keyChannels s1) channels\<rparr>)
            else Inr (kNotBlocked, s1))"

definition isFinished :: "HashProbe \<Rightarrow> bool" where
  "isFinished s = finished s"

text \<open>
  \<^verbatim>\<open>clearDynamicFilters\<close>; the call of the base class empties the dynamic filters.
\<close>

definition clearDynamicFilters :: "HashProbe \<Rightarrow> error + HashProbe" where
  "clearDynamicFilters s =
     (if length (keyChannels s) = 1 then
        (case table s of
           None \<Rightarrow> Inl NullPointer
         | Some t \<Rightarrow>
             if \<not> hasDuplicateKeys t \<and> tableResultProjections s = [] \<and> filterP s = None \<and>
                dynamicFilters s \<noteq> []
             then Inr (s\<lparr>canReplaceWithDynamicFilter := True, dynamicFilters := []\<rparr>)
             else Inr (s\<lparr>dynamicFilters := []\<rparr>))
      else Inr (s\<lparr>dynamicFilters := []\<rparr>))"

text \<open>
  \<^verbatim>\<open>noMoreInput\<close>; the argument is what \<^verbatim>\<open>allPeersFinished\<close> returns.
\<close>

definition noMoreInput :: "bool \<Rightarrow> HashProbe \<Rightarrow> HashProbe" where
  "noMoreInput allPeersFinished s =
     (let s1 = s\<lparr>noMoreInputFlag := True\<rparr> in
      if isRightJoin (joinType s1) \<or> isFullJoin (joinType s1) \<or> isRightSemiJoin (joinType s1)
      then (if \<not> allPeersFinished then s1 else s1\<lparr>lastProbe := True\<rparr>)
      else s1)"

section \<open>addInput\<close>

text \<open>
  \<^verbatim>\<open>std::vector::resize\<close> keeps the elements it has and appends null pointers;
  \<^verbatim>\<open>std::fill\<close> overwrites the first \<open>n\<close> elements.
\<close>

definition resize :: "'a option list \<Rightarrow> nat \<Rightarrow> 'a option list" where
  "resize xs n = take n xs @ replicate (n - length xs) None"

definition fill :: "'a list \<Rightarrow> nat \<Rightarrow> 'a \<Rightarrow> 'a list" where
  "fill xs n v = replicate (min n (length xs)) v @ drop n xs"

text \<open>
  Decoding the key columns and \<^verbatim>\<open>deselectRowsWithNulls\<close>: a row stays selected when none
  of its keys is null.
\<close>

definition decodeNonNullRows :: "nat list \<Rightarrow> RowVector \<Rightarrow> bool list" where
  "decodeNonNullRows channels inp = map (\<lambda>row. list_all (\<lambda>c. row ! c \<noteq> None) channels) inp"

text \<open>
  Modelled from the spec: \<^verbatim>\<open>VectorHasher::lookupValueIds\<close> is not in the source. If a key
  value was absent from the build-time dictionary, the row is deselected.
\<close>

definition lookupValueIds ::
  "BaseHashTable \<Rightarrow> nat \<Rightarrow> nat \<Rightarrow> RowVector \<Rightarrow> bool list \<Rightarrow> bool list" where
  "lookupValueIds t i channel inp act =
     map (\<lambda>r. act ! r \<and> knownKey t i (inp ! r ! channel)) [0..<length act]"

definition computeActiveRows ::
  "BaseHashTable \<Rightarrow> nat list \<Rightarrow> RowVector \<Rightarrow> bool list \<Rightarrow> bool list" where
  "computeActiveRows t channels inp nonNull =
     fold (\<lambda>i act. if hashMode t \<noteq> kHash then lookupValueIds t i (channels ! i) inp act else act)
       [0..<length channels] nonNull"

text \<open>
  Modelled from the spec: \<^verbatim>\<open>joinProbe\<close> is not in the source. For every \<open>rows[i]\<close> it
  populates \<open>hits[rows[i]]\<close> with the head of the chain of build rows with the same key,
  or null.
\<close>

definition joinProbe ::
  "BaseHashTable \<Rightarrow> nat list \<Rightarrow> RowVector \<Rightarrow> HashLookup \<Rightarrow> error + HashLookup" where
  "joinProbe t channels inp l =
     bindE (forEach (\<lambda>r h. store h r (lookupKey t (map (\<lambda>c. inp ! r ! c) channels)))
              (rows l) (hits l))
       (\<lambda>h. Inr (l\<lparr>hits := h\<rparr>))"

text \<open>
  The first part of \<^verbatim>\<open>addInput\<close> on a build side that is not empty: the rows without a
  null key, the active rows and the rows to probe.
\<close>

definition prepareLookup :: "BaseHashTable \<Rightarrow> RowVector \<Rightarrow> HashProbe \<Rightarrow> HashProbe" where
  "prepareLookup t inp s =
     (let nonNull = decodeNonNullRows (keyChannels s) inp;
          active = computeActiveRows t (keyChannels s) inp nonNull;
          rws = (if isAllSelected active then [0..<length active] else selected active)
      in s\<lparr>nonNullRows := nonNull, activeRows := active, lookup := (lookup s)\<lparr>rows := rws\<rparr>\<rparr>)"

text \<open>
  The probe for left, full and anti joins: one slot of \<open>hits\<close> for every input row, all
  null before the probe, and all input rows in \<open>rows\<close> after it.
\<close>

definition probeAllRows :: "BaseHashTable \<Rightarrow> RowVector \<Rightarrow> HashProbe \<Rightarrow> error + HashProbe" where
  "probeAllRows t inp s =
     (let numInput = length inp;
          l1 = (lookup s)\<lparr>hits := fill (resize (hits (lookup s)) numInput) numInput None\<rparr>
      in bindE (if rows l1 \<noteq> [] then joinProbe t (keyChannels s) inp l1 else Inr l1)
           (\<lambda>l2. Inr (s\<lparr>lookup := l2\<lparr>rows := [0..<numInput]\<rparr>\<rparr>)))"

text \<open>The probe for the other joins, on rows that are not empty.\<close>

definition probeActiveRows :: "BaseHashTable \<Rightarrow> RowVector \<Rightarrow> HashProbe \<Rightarrow> error + HashProbe" where
  "probeActiveRows t inp s =
     (let l1 = (lookup s)\<lparr>hits := resize (hits (lookup s)) (last (rows (lookup s)) + 1)\<rparr>
      in bindE (joinProbe t (keyChannels s) inp l1) (\<lambda>l2. Inr (s\<lparr>lookup := l2\<rparr>)))"

definition addInput :: "RowVector \<Rightarrow> HashProbe \<Rightarrow> error + HashProbe" where
  "addInput inp s0 =
     (let s = s0\<lparr>input := Some inp\<rparr> in
      if canReplaceWithDynamicFilter s then Inr (s\<lparr>replacedWithDynamicFilter := True\<rparr>)
      else case table s of
        None \<Rightarrow> Inl NullPointer
      | Some t \<Rightarrow>
          if numDistinct t = 0 then
            (if isNullAwareAntiJoin (joinType s) \<or> isLeftJoin (joinType s) \<or>
                isFullJoin (joinType s)
             then Inr s else Inl CheckFailed)
          else
            let s1 = prepareLookup t inp s in
            if isLeftJoin (joinType s1) \<or> isFullJoin (joinType s1) \<or>
               isNullAwareAntiJoin (joinType s1) then
              bindE (probeAllRows t inp s1)
                (\<lambda>s2. Inr (s2\<lparr>results := reset t (lookup s2)\<rparr>))
            else if rows (lookup s1) = [] then Inr (s1\<lparr>input := None\<rparr>)
            else
              bindE (probeActiveRows t inp s1)
                (\<lambda>s2. Inr (s2\<lparr>results := reset t (lookup s2)\<rparr>)))"

section \<open>getOutput\<close>

text \<open>
  A row of the output names the probe row it wraps (none in the rows that drain the
  build side) and the build row its build columns are extracted from (none: nulls).
\<close>

type_synonym Output = "(nat option \<times> row_ptr option) list"

text \<open>
  Modelled from the spec: \<^verbatim>\<open>listProbedRows\<close> and \<^verbatim>\<open>listNotProbedRows\<close> are not in the
  source. They iterate the build rows by their probed flag, up to \<open>cap\<close> rows, and
  return how many rows the iterator moved.
\<close>

fun listRowsWhere :: "(row_ptr \<Rightarrow> bool) \<Rightarrow> nat \<Rightarrow> row_ptr list \<Rightarrow> row_ptr list \<times> nat" where
  "listRowsWhere P 0 xs = ([], 0)"
| "listRowsWhere P (Suc n) [] = ([], 0)"
| "listRowsWhere P (Suc n) (x # xs) =
     (if P x then (case listRowsWhere P n xs of (out, k) \<Rightarrow> (x # out, Suc k))
      else (case listRowsWhere P (Suc n) xs of (out, k) \<Rightarrow> (out, Suc k)))"

definition getBuildSideOutput :: "HashProbe \<Rightarrow> error + Output option \<times> HashProbe" where
  "getBuildSideOutput s =
     (case table s of
        None \<Rightarrow> Inl NullPointer
      | Some t \<Rightarrow>
          let s1 = s\<lparr>outputRows := resize (outputRows s) (outputBatchSize s)\<rparr>;
              found = listRowsWhere
                        (\<lambda>b. if isRightSemiJoin (joinType s1) then b \<in> probed t else b \<notin> probed t)
                        (outputBatchSize s1) (drop (lastProbeIterator s1) (containerRows t));
              numOut = length (fst found);
              s2 = s1\<lparr>lastProbeIterator := lastProbeIterator s1 + snd found,
                      outputRows := map Some (fst found) @ drop numOut (outputRows s1)\<rparr>
          in if numOut = 0 then Inr (None, s2)
             else Inr (Some (map (\<lambda>b. (None, b)) (take numOut (outputRows s2))), s2))"

definition initializeRowNumberMapping :: "bool \<Rightarrow> nat list \<Rightarrow> nat \<Rightarrow> nat list" where
  "initializeRowNumberMapping unique mapping n =
     (if \<not> unique \<or> length mapping < n then replicate n 0 else mapping)"

text \<open>
  \<^verbatim>\<open>HashProbe::fillOutput\<close>: the probe columns are wrapped in the row number mapping, the
  build columns are extracted from the first rows of \<^verbatim>\<open>outputRows_\<close>.
\<close>

definition fillOutput :: "nat \<Rightarrow> HashProbe \<Rightarrow> error + Output" where
  "fillOutput n s =
     mapE (\<lambda>k. bindE (load (rowNumberMapping s) k) (\<lambda>j.
                bindE (load (outputRows s) k) (\<lambda>b. Inr (Some j, b)))) [0..<n]"

text \<open>
  Modelled from the spec: \<^verbatim>\<open>setProbedFlag\<close> is not in the source. It marks the build rows
  among the first \<open>n\<close> entries as matched.
\<close>

definition nonNullPtrs :: "row_ptr option list \<Rightarrow> row_ptr list" where
  "nonNullPtrs xs = concat (map (\<lambda>x. case x of None \<Rightarrow> [] | Some b \<Rightarrow> [b]) xs)"

definition setProbedFlag :: "row_ptr option list \<Rightarrow> nat \<Rightarrow> BaseHashTable \<Rightarrow> error + BaseHashTable" where
  "setProbedFlag rs n t =
     (if n \<le> length rs then Inr (t\<lparr>probed := probed t \<union> set (nonNullPtrs (take n rs))\<rparr>)
      else Inl OutOfRange)"

text \<open>The loop that fills the mapping for the anti join without a filter.\<close>

definition antiNoFilterStep :: "HashProbe \<Rightarrow> nat \<Rightarrow> nat list \<times> nat \<Rightarrow> error + nat list \<times> nat" where
  "antiNoFilterStep s i st =
     bindE (load (hits (lookup s)) i) (\<lambda>h.
       if nonNullRows s ! i \<and> (\<not> activeRows s ! i \<or> h = None)
       then bindE (store (fst st) (snd st) i) (\<lambda>m. Inr (m, Suc (snd st)))
       else Inr st)"

text \<open>
  The three ways to produce rows: the build side is empty, the anti join without a
  filter, and the results of the join listed by the cursor. \<open>cap\<close> is the size of the
  range \<^verbatim>\<open>mapping\<close>.
\<close>

definition produceRows ::
  "RowVector \<Rightarrow> BaseHashTable \<Rightarrow> nat \<Rightarrow> HashProbe \<Rightarrow> error + nat \<times> HashProbe" where
  "produceRows inp t cap s =
     (if numDistinct t = 0 then
        Inr (length inp, s\<lparr>rowNumberMapping := [0..<cap] @ drop cap (rowNumberMapping s)\<rparr>)
      else if isNullAwareAntiJoin (joinType s) \<and> filterP s = None then
        bindE (forEach (antiNoFilterStep s) [0..<length inp] (take cap (rowNumberMapping s), 0))
          (\<lambda>st. Inr (snd st, s\<lparr>rowNumberMapping := fst st @ drop cap (rowNumberMapping s)\<rparr>))
      else
        (let found = listPairs
                       (isLeftJoin (joinType s) \<or> isFullJoin (joinType s) \<or>
                        isNullAwareAntiJoin (joinType s))
                       (min cap (length (outputRows s))) (pending (results s));
             numOut = length (fst found)
         in Inr (numOut,
                 s\<lparr>results := \<lparr>pending = snd found\<rparr>,
                   rowNumberMapping := map fst (fst found) @ drop numOut (rowNumberMapping s),
                   outputRows := map snd (fst found) @ drop numOut (outputRows s)\<rparr>)))"

datatype Iteration = Continue HashProbe | Return "Output option" HashProbe

text \<open>The body of the loop \<^verbatim>\<open>for (;;)\<close> of \<^verbatim>\<open>getOutput\<close>.\<close>

definition getOutputBody :: "RowVector \<Rightarrow> nat \<Rightarrow> HashProbe \<Rightarrow> error + Iteration" where
  "getOutputBody inp cap s =
     (case table s of
        None \<Rightarrow> Inl NullPointer
      | Some t \<Rightarrow>
          let isLeftSemiOrAntiJoinNoFilter =
                (filterP s = None \<and>
                 (isLeftSemiJoin (joinType s) \<or> isNullAwareAntiJoin (joinType s)));
              emptyBuildSide = (numDistinct t = 0)
          in
          bindE (produceRows inp t cap s) (\<lambda>produced.
            let numOut = fst produced; s1 = snd produced in
            if numOut = 0 then Inr (Return None (s1\<lparr>input := None\<rparr>))
            else if \<not> numOut \<le> length (outputRows s1) then Inl CheckFailed
            else
              bindE (evalFilter numOut s1) (\<lambda>filtered.
                let numPassed = fst filtered; s2 = snd filtered in
                if numPassed = 0 then
                  (if isLeftSemiOrAntiJoinNoFilter then Inr (Return None (s2\<lparr>input := None\<rparr>))
                   else Inr (Continue s2))
                else
                  bindE (if isRightJoin (joinType s2) \<or> isFullJoin (joinType s2) \<or>
                            isRightSemiJoin (joinType s2)
                         then bindE (setProbedFlag (outputRows s2) numPassed t)
                                (\<lambda>t'. Inr (s2\<lparr>table := Some t'\<rparr>))
                         else Inr s2) (\<lambda>s3.
                    if isRightSemiJoin (joinType s3) then
                      Inr (Return None (if atEnd (results s3) then s3\<lparr>input := None\<rparr> else s3))
                    else
                      bindE (fillOutput numPassed s3) (\<lambda>out.
                        Inr (Return (Some out)
                               (if isLeftSemiOrAntiJoinNoFilter \<or> emptyBuildSide
                                then s3\<lparr>input := None\<rparr> else s3)))))))"

text \<open>
  The loop runs on fuel: without fuel left it has not returned, which is \<open>None\<close>.
\<close>

fun getOutputLoop ::
  "nat \<Rightarrow> RowVector \<Rightarrow> nat \<Rightarrow> HashProbe \<Rightarrow> (error + Output option \<times> HashProbe) option" where
  "getOutputLoop 0 inp cap s = None"
| "getOutputLoop (Suc fuel) inp cap s =
     (case getOutputBody inp cap s of
        Inl e \<Rightarrow> Some (Inl e)
      | Inr (Return out s') \<Rightarrow> Some (Inr (out, s'))
      | Inr (Continue s') \<Rightarrow> getOutputLoop fuel inp cap s')"

text \<open>
  \<^verbatim>\<open>getOutput\<close>. \<open>unique\<close> says whether the buffer of the row number mapping is held by
  the operator alone. A batch replaced by the dynamic filter is passed on whole.
\<close>

definition getOutput ::
  "nat \<Rightarrow> bool \<Rightarrow> HashProbe \<Rightarrow> (error + Output option \<times> HashProbe) option" where
  "getOutput fuel unique s =
     (case input s of
        None \<Rightarrow>
          if noMoreInputFlag s \<and>
             (isRightJoin (joinType s) \<or> isFullJoin (joinType s) \<or> isRightSemiJoin (joinType s)) \<and>
             lastProbe s
          then Some (bindE (getBuildSideOutput s) (\<lambda>r.
                 Inr (fst r, if fst r = None then (snd r)\<lparr>finished := True\<rparr> else snd r)))
          else Some (Inr (None, if noMoreInputFlag s then s\<lparr>finished := True\<rparr> else s))
      | Some inp \<Rightarrow>
          if replacedWithDynamicFilter s
          then Some (Inr (Some (map (\<lambda>i. (Some i, None)) [0..<length inp]), s\<lparr>input := None\<rparr>))
          else
            (case table s of
               None \<Rightarrow> Some (Inl NullPointer)
             | Some t \<Rightarrow>
                 let isLeftSemiOrAntiJoinNoFilter =
                       (filterP s = None \<and>
                        (isLeftSemiJoin (joinType s) \<or> isNullAwareAntiJoin (joinType s)));
                     emptyBuildSide = (numDistinct t = 0);
                     batchSize = (if isLeftSemiOrAntiJoinNoFilter \<or> emptyBuildSide
                                  then length inp else outputBatchSize s);
                     s1 = s\<lparr>rowNumberMapping :=
                              initializeRowNumberMapping unique (rowNumberMapping s) batchSize,
                            outputRows := resize (outputRows s) batchSize\<rparr>
                 in getOutputLoop fuel inp batchSize s1))"

section \<open>The constructor and a small join\<close>

text \<open>
  The constructor: the members it sets from the join node, the others at their defaults.
  \<^verbatim>\<open>outputRows_\<close> starts with one null pointer for each row of an output batch.
\<close>

definition makeHashProbe ::
  "nat \<Rightarrow> JoinType \<Rightarrow> nat list \<Rightarrow> Expr option \<Rightarrow> nat list \<Rightarrow> (nat \<times> nat) list \<Rightarrow> HashProbe" where
  "makeHashProbe batchSize jt keys f probeInputs projections =
     \<lparr>outputBatchSize = batchSize, joinType = jt, keyChannels = keys, filterP = f,
      filterProbeInputs = probeInputs, tableResultProjections = projections,
      dynamicFilters = [], table = None, finished = False, noMoreInputFlag = False,
      lastProbe = False, lastProbeIterator = 0, canReplaceWithDynamicFilter = False,
      replacedWithDynamicFilter = False, input = None, nonNullRows = [], activeRows = [],
      lookup = \<lparr>rows = [], hits = []\<rparr>, results = \<lparr>pending = []\<rparr>,
      rowNumberMapping = [], outputRows = replicate batchSize None,
      noMatchDetector = \<lparr>currentRow = None, currentRowPassed = False\<rparr>,
      leftSemiJoinTracker = \<lparr>semiCurrentRow = None\<rparr>,
      nullFilterProbeInputRows = [], filterRows = []\<rparr>"

text \<open>
  A build side of three rows: rows 10 and 11 have key 1, row 12 has key 2. The filter
  of the example is true on build row 12 and false elsewhere; \<open>nullFilter\<close> is null
  everywhere, and the bit stored under each null is set.
\<close>

definition exampleTable :: BaseHashTable where
  "exampleTable =
     \<lparr>numDistinct = 2, hasDuplicateKeys = True, hashMode = kHash,
      lookupKey = (\<lambda>k. if k = [Some 1] then Some 10 else if k = [Some 2] then Some 12 else None),
      nextRows = (\<lambda>b. if b = 10 then [11] else []),
      knownKey = (\<lambda>i v. True), hasherFilter = (\<lambda>i. False),
      containerRows = [10, 11, 12], nullKeyRow = (\<lambda>b. False), probed = {}\<rparr>"

definition exampleBuild :: HashBuildResult where
  "exampleBuild = \<lparr>antiJoinHasNullKeys = False, buildTable = exampleTable\<rparr>"

definition exampleFilter :: Expr where
  "exampleFilter =
     \<lparr>evalExpr = (\<lambda>row b. Some (b = Some 12)), storedBit = (\<lambda>row b. False),
      propagatesNulls = False\<rparr>"


text \<open>
  The operator once the build side has arrived, and once it has taken the batch of the
  probe rows with keys 1 and 2; on an error the operator is left as it was.
\<close>

definition started :: "HashProbe \<Rightarrow> HashProbe" where
  "started s = (case isBlocked (Some exampleBuild) [] s of Inl e \<Rightarrow> s | Inr r \<Rightarrow> snd r)"

definition fed :: "RowVector \<Rightarrow> HashProbe \<Rightarrow> HashProbe" where
  "fed inp s = (case addInput inp s of Inl e \<Rightarrow> s | Inr s' \<Rightarrow> s')"

definition exampleInput :: RowVector where
  "exampleInput = [[Some 1], [Some 2]]"

definition leftJoinProbe :: "nat \<Rightarrow> HashProbe" where
  "leftJoinProbe batchSize =
     fed exampleInput (started (makeHashProbe batchSize kLeft [0] (Some exampleFilter) [] []))"

definition antiJoinProbe :: "Expr option \<Rightarrow> RowVector \<Rightarrow> HashProbe" where
  "antiJoinProbe f inp = fed inp (started (makeHashProbe 2 kNullAwareAnti [0] f [] []))"

text \<open>
  The buffers as \<open>getOutput\<close> prepares them for a batch, the operator after a round of
  the loop that ends in \<^verbatim>\<open>continue\<close>, and after the next rows are produced.
\<close>

definition buffered :: "nat \<Rightarrow> HashProbe \<Rightarrow> HashProbe" where
  "buffered n s =
     s\<lparr>rowNumberMapping := initializeRowNumberMapping True (rowNumberMapping s) n,
       outputRows := resize (outputRows s) n\<rparr>"

definition afterContinue :: "RowVector \<Rightarrow> nat \<Rightarrow> HashProbe \<Rightarrow> HashProbe" where
  "afterContinue inp cap s =
     (case getOutputBody inp cap s of Inr (Continue s') \<Rightarrow> s' | _ \<Rightarrow> s)"

definition afterProduce :: "RowVector \<Rightarrow> nat \<Rightarrow> HashProbe \<Rightarrow> HashProbe" where
  "afterProduce inp cap s =
     (case produceRows inp exampleTable cap s of Inr r \<Rightarrow> snd r | Inl e \<Rightarrow> s)"

text \<open>
  The left join of the example with batches of two rows: the first round lists the pairs
  of probe row 0 with build rows 10 and 11, the filter fails on both and the loop
  continues with the miss of row 0 pending; then the pair of probe row 1 with build row
  12 is produced. With batches of one row the same state is reached after two rounds.
\<close>

definition pendingMissOfTwo :: HashProbe where
  "pendingMissOfTwo =
     afterProduce exampleInput 2 (afterContinue exampleInput 2 (buffered 2 (leftJoinProbe 2)))"

definition pendingMissOfOne :: HashProbe where
  "pendingMissOfOne =
     afterProduce exampleInput 1
       (afterContinue exampleInput 1 (afterContinue exampleInput 1 (buffered 1 (leftJoinProbe 1))))"

text \<open>The filter with every null result replaced by false.\<close>

definition nullAsFalse :: "Expr \<Rightarrow> Expr" where
  "nullAsFalse f =
     f\<lparr>evalExpr := \<lambda>row b. (case evalExpr f row b of None \<Rightarrow> Some False | Some v \<Rightarrow> Some v)\<rparr>"


text \<open>The members that \<open>evalFilter\<close> leaves as they are.\<close>

definition filterFrame where
  "filterFrame (s :: HashProbe) =
     (outputBatchSize s, joinType s, keyChannels s, filterP s, filterProbeInputs s,
      tableResultProjections s, dynamicFilters s, table s, finished s, noMoreInputFlag s,
      lastProbe s, lastProbeIterator s, canReplaceWithDynamicFilter s,
      replacedWithDynamicFilter s, input s, nonNullRows s, activeRows s, lookup s, results s)"

text \<open>
  The rows that the anti join without a filter is to emit, in the words of the
  specification: the rows \<open>i\<close> below \<open>n\<close> with \<open>nonNullRows[i]\<close> and either not
  \<open>activeRows[i]\<close> or \<open>hits[i]\<close> null.
\<close>

definition antiNoFilterRows :: "HashProbe \<Rightarrow> nat \<Rightarrow> nat list" where
  "antiNoFilterRows s n =
     filter (\<lambda>i. nonNullRows s ! i \<and> (\<not> activeRows s ! i \<or> hits (lookup s) ! i = None)) [0..<n]"

definition antiNoFilterProbe :: HashProbe where
  "antiNoFilterProbe = antiJoinProbe None [[Some 1], [Some 3], [None]]"

section \<open>Errors and loops: basic facts\<close>

lemma bindE_Inr [simp]: "bindE (Inr x) f = f x"
  by (simp add: bindE_def)

lemma bindE_Inl [simp]: "bindE (Inl e) f = Inl e"
  by (simp add: bindE_def)

lemma bindE_eq_Inr: "bindE m f = Inr y \<longleftrightarrow> (\<exists>x. m = Inr x \<and> f x = Inr y)"
  by (cases m) simp_all

lemma load_eq_Inr: "load xs i = Inr v \<longleftrightarrow> i < length xs \<and> v = xs ! i"
  by (auto simp: load_def)

lemma store_eq_Inr: "store xs i v = Inr ys \<longleftrightarrow> i < length xs \<and> ys = xs[i := v]"
  by (auto simp: store_def)

lemma forEach_append:
  "forEach f (xs @ ys) s = bindE (forEach f xs s) (forEach f ys)"
  by (induction xs arbitrary: s) (auto split: sum.splits)

lemma forEach_invariant:
  assumes "forEach f xs s = Inr s'" and "P s"
    and "\<And>i a b. i \<in> set xs \<Longrightarrow> P a \<Longrightarrow> f i a = Inr b \<Longrightarrow> P b"
  shows "P s'"
  using assms
proof (induction xs arbitrary: s)
  case Nil
  then show ?case by simp
next
  case (Cons x xs)
  from Cons.prems(1) obtain a where fa: "f x s = Inr a" and rest: "forEach f xs a = Inr s'"
    by (auto split: sum.splits)
  have "P a" using Cons.prems(2) fa Cons.prems(3) [of x s a] by simp
  moreover have "\<And>i a b. i \<in> set xs \<Longrightarrow> P a \<Longrightarrow> f i a = Inr b \<Longrightarrow> P b"
    using Cons.prems(3) by (meson list.set_intros(2))
  ultimately show ?case using Cons.IH [OF rest] by blast
qed

lemma forEach_upt_invariant:
  assumes "forEach f [a..<b] s = Inr s'" and "Q a s" and "a \<le> b"
    and "\<And>i x y. a \<le> i \<Longrightarrow> i < b \<Longrightarrow> Q i x \<Longrightarrow> f i x = Inr y \<Longrightarrow> Q (Suc i) y"
  shows "Q b s'"
  using assms
proof (induction "b - a" arbitrary: a s)
  case 0
  then show ?case by simp
next
  case (Suc n)
  then have lt: "a < b" by simp
  then have upt: "[a..<b] = a # [Suc a..<b]" by (simp add: upt_conv_Cons)
  from Suc.prems(1) upt obtain x where fa: "f a s = Inr x" and rest: "forEach f [Suc a..<b] x = Inr s'"
    by (auto split: sum.splits)
  have qx: "Q (Suc a) x" using Suc.prems(4) [of a s x] Suc.prems(2) fa lt by simp
  have "n = b - Suc a" using Suc.hyps(2) by simp
  moreover have "\<And>i x y. Suc a \<le> i \<Longrightarrow> i < b \<Longrightarrow> Q i x \<Longrightarrow> f i x = Inr y \<Longrightarrow> Q (Suc i) y"
    using Suc.prems(4) by (meson Suc_leD)
  moreover have "Suc a \<le> b" using lt by simp
  ultimately show ?case using Suc.hyps(1) [OF _ rest qx] by blast
qed

lemma mapE_eq_Inr:
  "mapE f xs = Inr ys \<longleftrightarrow> length ys = length xs \<and> (\<forall>k < length xs. f (xs ! k) = Inr (ys ! k))"
proof (induction xs arbitrary: ys)
  case Nil
  then show ?case by auto
next
  case (Cons x xs)
  show ?case
  proof (cases ys)
    case Nil
    then show ?thesis by (auto split: sum.splits)
  next
    case (Cons y ys')
    then show ?thesis using Cons.IH [of ys']
      by (auto split: sum.splits simp: nth_Cons split: nat.splits) 
  qed
qed

section \<open>The build result ends the wait\<close>

text \<open>
  Claim C5. When \<open>isBlocked\<close> obtains the build result (the operator holds no table yet):
  if the build reports null keys for the anti join and the join is the null-aware anti
  join, the operator is finished and not blocked (for another join type the check
  fails); if the table has no distinct rows and the join is inner, left semi, right or
  right semi, the operator is finished and not blocked; in every other case the table is
  stored, the operator is not blocked and is as finished as it was before.
\<close>

theorem isBlocked_build_result:
  assumes "table s = None"
  shows "(antiJoinHasNullKeys r \<and> isNullAwareAntiJoin (joinType s) \<longrightarrow>
           (\<exists>s'. isBlocked (Some r) channels s = Inr (kNotBlocked, s') \<and> isFinished s'))
       \<and> (antiJoinHasNullKeys r \<and> \<not> isNullAwareAntiJoin (joinType s) \<longrightarrow>
           isBlocked (Some r) channels s = Inl CheckFailed)
       \<and> (\<not> antiJoinHasNullKeys r \<and> numDistinct (buildTable r) = 0 \<and>
          joinType s \<in> {kInner, kLeftSemi, kRight, kRightSemi} \<longrightarrow>
           (\<exists>s'. isBlocked (Some r) channels s = Inr (kNotBlocked, s') \<and> isFinished s'))
       \<and> (\<not> antiJoinHasNullKeys r \<and>
          \<not> (numDistinct (buildTable r) = 0 \<and>
             joinType s \<in> {kInner, kLeftSemi, kRight, kRightSemi}) \<longrightarrow>
           (\<exists>s'. isBlocked (Some r) channels s = Inr (kNotBlocked, s') \<and>
                 table s' = Some (buildTable r) \<and> isFinished s' = isFinished s))"
  using assms by (auto simp: isBlocked_def isFinished_def joinTypeTests Let_def)

theorem isBlocked_build_result_witness:
  "(\<exists>s'. isBlocked (Some \<lparr>antiJoinHasNullKeys = True, buildTable = exampleTable\<rparr>) []
            (makeHashProbe 2 kNullAwareAnti [0] None [] []) = Inr (kNotBlocked, s') \<and>
         isFinished s')
   \<and> isBlocked (Some \<lparr>antiJoinHasNullKeys = True, buildTable = exampleTable\<rparr>) []
        (makeHashProbe 2 kInner [0] None [] []) = Inl CheckFailed
   \<and> (\<exists>s'. isBlocked (Some \<lparr>antiJoinHasNullKeys = False,
                              buildTable = exampleTable\<lparr>numDistinct := 0\<rparr>\<rparr>) []
            (makeHashProbe 2 kRight [0] None [] []) = Inr (kNotBlocked, s') \<and>
         isFinished s')
   \<and> (\<exists>s'. isBlocked (Some exampleBuild) [] (makeHashProbe 2 kLeft [0] None [] []) =
            Inr (kNotBlocked, s') \<and>
         table s' = Some exampleTable \<and> \<not> isFinished s')"
proof -
  have t: "\<And>jt. table (makeHashProbe 2 jt [0] None [] []) = None"
    by (simp add: makeHashProbe_def)
  have j: "\<And>jt. joinType (makeHashProbe 2 jt [0] None [] []) = jt"
    by (simp add: makeHashProbe_def)
  have f: "\<And>jt. isFinished (makeHashProbe 2 jt [0] None [] []) = False"
    by (simp add: makeHashProbe_def isFinished_def)
  show ?thesis
    using isBlocked_build_result [OF t, of "\<lparr>antiJoinHasNullKeys = True, buildTable = exampleTable\<rparr>"
            kNullAwareAnti "[]"]
      isBlocked_build_result [OF t, of "\<lparr>antiJoinHasNullKeys = True, buildTable = exampleTable\<rparr>"
            kInner "[]"]
      isBlocked_build_result [OF t, of "\<lparr>antiJoinHasNullKeys = False, buildTable = exampleTable\<lparr>numDistinct := 0\<rparr>\<rparr>"
            kRight "[]"]
      isBlocked_build_result [OF t, of exampleBuild kLeft "[]"]
    by (simp add: j f joinTypeTests exampleBuild_def exampleTable_def)
qed

section \<open>A null filter result is a false one\<close>


lemma propagatesNulls_nullAsFalse [simp]: "propagatesNulls (nullAsFalse f) = propagatesNulls f"
  by (simp add: nullAsFalse_def)




















lemma filterP_started: "filterP (started s) = filterP s"
  by (auto simp: started_def isBlocked_def Let_def split: sum.splits option.splits if_splits)

lemma filterP_fed: "filterP (fed inp s) = filterP s"
  by (auto simp: fed_def addInput_def prepareLookup_def probeAllRows_def probeActiveRows_def
      Let_def bindE_eq_Inr split: sum.splits option.splits if_splits)




section \<open>A miss carried over from the batch before\<close>

text \<open>
  Claim C10 fails on the code. In the left join of the example the miss of probe row 0
  is pending when \<open>evalFilter\<close> is called on the single pair of probe row 1, which passes
  the filter: the pending miss and the pair are both written. With room for two rows
  \<open>evalFilter 1\<close> returns 2; with room for one row it writes past the end.
\<close>

theorem evalFilter_returns_more_than_numRows:
  "length (outputRows pendingMissOfTwo) = 2 \<and>
   noMatchDetector pendingMissOfTwo = \<lparr>currentRow = Some 0, currentRowPassed = False\<rparr> \<and>
   take 1 (rowNumberMapping pendingMissOfTwo) = [1] \<and>
   map_sum id fst (evalFilter 1 pendingMissOfTwo) = Inr 2 \<and>
   length (outputRows pendingMissOfOne) = 1 \<and>
   map_sum id fst (evalFilter 1 pendingMissOfOne) = Inl OutOfRange \<and>
   map_option (map_sum id fst) (getOutput 3 True (leftJoinProbe 1)) = Some (Inl OutOfRange)"
  by code_simp

text \<open>
  Claim C2 fails on the code. In the same left join with batches of two rows, the pair
  of probe row 1 with build row 12 passes the filter, yet the output holds probe row 0
  twice with no build row and probe row 1 not at all: the pending miss of row 0 is
  written over the pair before the pair is copied.
\<close>

theorem left_join_passing_pair_is_overwritten:
  "evalExpr exampleFilter (exampleInput ! 1) (Some 12) = Some True \<and>
   pending (results (leftJoinProbe 2)) = [(0, [10, 11]), (1, [12])] \<and>
   map_option (map_sum id fst) (getOutput 2 True (leftJoinProbe 2))
     = Some (Inr (Some [(Some 0, None), (Some 0, None)]))"
  by code_simp

section \<open>The anti join without a filter\<close>

lemma length_antiNoFilterRows: "length (antiNoFilterRows s n) \<le> n"
  unfolding antiNoFilterRows_def by (rule order_trans [OF length_filter_le]) simp

lemma antiNoFilterRows_Suc:
  "antiNoFilterRows s (Suc k) =
     antiNoFilterRows s k @
       (if nonNullRows s ! k \<and> (\<not> activeRows s ! k \<or> hits (lookup s) ! k = None) then [k] else [])"
  by (simp add: antiNoFilterRows_def)

lemma antiNoFilter_loop:
  assumes "k \<le> length (hits (lookup s))" and "k \<le> length m0"
  shows "\<exists>m. forEach (antiNoFilterStep s) [0..<k] (m0, 0) = Inr (m, length (antiNoFilterRows s k)) \<and>
             length m = length m0 \<and>
             take (length (antiNoFilterRows s k)) m = antiNoFilterRows s k"
  using assms
proof (induction k)
  case 0
  then show ?case by (simp add: antiNoFilterRows_def)
next
  case (Suc k)
  then obtain m where run: "forEach (antiNoFilterStep s) [0..<k] (m0, 0) = Inr (m, length (antiNoFilterRows s k))"
    and len: "length m = length m0"
    and tk: "take (length (antiNoFilterRows s k)) m = antiNoFilterRows s k"
    by auto
  have n: "length (antiNoFilterRows s k) < length m"
    using length_antiNoFilterRows [of s k] Suc.prems(2) len by simp
  have h: "k < length (hits (lookup s))" using Suc.prems(1) by simp
  show ?case
  proof (cases "nonNullRows s ! k \<and> (\<not> activeRows s ! k \<or> hits (lookup s) ! k = None)")
    case True
    then have "forEach (antiNoFilterStep s) [0..<Suc k] (m0, 0)
        = Inr (m[length (antiNoFilterRows s k) := k], Suc (length (antiNoFilterRows s k)))"
      using run n h by (simp add: forEach_append antiNoFilterStep_def load_def store_def)
    moreover have "take (Suc (length (antiNoFilterRows s k))) (m[length (antiNoFilterRows s k) := k])
        = antiNoFilterRows s k @ [k]"
      using tk n by (simp add: take_Suc_conv_app_nth)
    ultimately show ?thesis using True len by (simp add: antiNoFilterRows_Suc)
  next
    case False
    then have "forEach (antiNoFilterStep s) [0..<Suc k] (m0, 0)
        = Inr (m, length (antiNoFilterRows s k))"
      using run h by (auto simp add: forEach_append antiNoFilterStep_def load_def)
    then show ?thesis using False len tk by (simp add: antiNoFilterRows_Suc)
  qed
qed


lemma mapE_upt_Inr:
  assumes "\<And>k. k < n \<Longrightarrow> f k = Inr (g k)"
  shows "mapE f [0..<n] = Inr (map g [0..<n])"
  using assms by (subst mapE_eq_Inr) simp

lemma fillOutput_Inr:
  assumes "n \<le> length (rowNumberMapping s)" and "n \<le> length (outputRows s)"
  shows "fillOutput n s = Inr (map (\<lambda>k. (Some (rowNumberMapping s ! k), outputRows s ! k)) [0..<n])"
  unfolding fillOutput_def using assms by (intro mapE_upt_Inr) (simp add: load_def)

lemma length_initializeRowNumberMapping:
  "n \<le> length (initializeRowNumberMapping u m n)"
  by (simp add: initializeRowNumberMapping_def)

lemma length_resize [simp]: "length (resize xs n) = n"
  by (simp add: resize_def)

text \<open>
  Claim C1. For a null-aware anti join with no residual filter and a non-empty build
  side, a call of \<open>getOutput\<close> on a batch (with one slot of \<open>hits\<close> for each input row)
  returns: the row number mapping starts with exactly the input rows \<open>i\<close> with
  \<open>nonNullRows[i]\<close> and either not \<open>activeRows[i]\<close> or \<open>hits[i]\<close> null, in ascending order;
  the output wraps exactly these rows, as many as there are; with no such row the output
  is null. The batch is consumed.
\<close>

theorem anti_join_without_filter_output:
  assumes inp: "input s = Some inp"
    and nr: "\<not> replacedWithDynamicFilter s"
    and tab: "table s = Some t"
    and nd: "numDistinct t \<noteq> 0"
    and jt: "joinType s = kNullAwareAnti"
    and nf: "filterP s = None"
    and hl: "length (hits (lookup s)) = length inp"
  shows "\<exists>out s'. getOutput (Suc fuel) unique s = Some (Inr (out, s')) \<and>
           input s' = None \<and>
           take (length (antiNoFilterRows s (length inp))) (rowNumberMapping s')
             = antiNoFilterRows s (length inp) \<and>
           (if antiNoFilterRows s (length inp) = [] then out = None
            else \<exists>rws. out = Some rws \<and> map fst rws = map Some (antiNoFilterRows s (length inp)))"
proof -
  define n where "n = length inp"
  define s1 where "s1 = s\<lparr>rowNumberMapping := initializeRowNumberMapping unique (rowNumberMapping s) n,
                            outputRows := resize (outputRows s) n\<rparr>"
  define sel where "sel = antiNoFilterRows s n"
  have sel1: "\<And>k. antiNoFilterRows s1 k = antiNoFilterRows s k"
    by (simp add: antiNoFilterRows_def s1_def)
  have go: "getOutput (Suc fuel) unique s = getOutputLoop (Suc fuel) inp n s1"
    using inp nr tab nd jt nf by (simp add: getOutput_def joinTypeTests Let_def n_def s1_def)
  have lm: "n \<le> length (rowNumberMapping s1)"
    by (simp add: s1_def length_initializeRowNumberMapping)
  have hl1: "n \<le> length (hits (lookup s1))"
    using hl by (simp add: s1_def n_def)
  have lt: "n \<le> length (take n (rowNumberMapping s1))"
    using lm by simp
  have "\<exists>m. forEach (antiNoFilterStep s1) [0..<n] (take n (rowNumberMapping s1), 0)
        = Inr (m, length sel) \<and> length m = length (take n (rowNumberMapping s1)) \<and>
        take (length sel) m = sel"
    using antiNoFilter_loop [OF hl1 lt] unfolding sel1 sel_def .
  then obtain m where run: "forEach (antiNoFilterStep s1) [0..<n] (take n (rowNumberMapping s1), 0)
        = Inr (m, length sel)"
    and len: "length m = n" and tk: "take (length sel) m = sel"
    using lm by auto
  define s2 where "s2 = s1\<lparr>rowNumberMapping := m @ drop n (rowNumberMapping s1)\<rparr>"
  have t1: "table s1 = Some t" and j1: "joinType s1 = kNullAwareAnti" and f1: "filterP s1 = None"
    using tab jt nf by (simp_all add: s1_def)
  have j2: "joinType s2 = kNullAwareAnti" and f2: "filterP s2 = None"
    and ol: "length (outputRows s2) = n"
    using j1 f1 by (simp_all add: s2_def) (simp add: s1_def)
  have prod: "produceRows inp t n s1 = Inr (length sel, s2)"
    using nd j1 f1 run by (simp add: produceRows_def joinTypeTests s2_def n_def)
  have sl: "length sel \<le> n"
    unfolding sel_def by (rule length_antiNoFilterRows)
  have tk2: "take (length sel) (rowNumberMapping s2) = sel"
    using tk sl len by (simp add: s2_def)
  have loop: "\<And>r. getOutputBody inp n s1 = Inr (Return r (s2\<lparr>input := None\<rparr>)) \<Longrightarrow>
      getOutputLoop (Suc fuel) inp n s1 = Some (Inr (r, s2\<lparr>input := None\<rparr>))"
    by simp
  have tk3: "take (length sel) (rowNumberMapping (s2\<lparr>input := None\<rparr>)) = sel"
    using tk2 by simp
  have in3: "input (s2\<lparr>input := None\<rparr>) = None"
    by simp
  have "\<exists>out s'. getOutputLoop (Suc fuel) inp n s1 = Some (Inr (out, s')) \<and>
           input s' = None \<and> take (length sel) (rowNumberMapping s') = sel \<and>
           (if sel = [] then out = None else \<exists>rws. out = Some rws \<and> map fst rws = map Some sel)"
  proof (cases "sel = []")
    case True
    then have z: "length sel = 0" by simp
    have "getOutputBody inp n s1 = Inr (Return None (s2\<lparr>input := None\<rparr>))"
      unfolding getOutputBody_def
      by (simp only: t1 option.case Let_def prod bindE_Inr fst_conv snd_conv z if_True simp_thms)
    from loop [OF this]
    have g: "getOutputLoop (Suc fuel) inp n s1 = Some (Inr (None, s2\<lparr>input := None\<rparr>))" .
    have c: "if sel = [] then (None :: Output option) = None
             else \<exists>rws. (None :: Output option) = Some rws \<and> map fst rws = map Some sel"
      using True by simp
    show ?thesis
      by (intro exI conjI) (rule g, rule in3, rule tk3, rule c)
  next
    case False
    have ev: "evalFilter (length sel) s2 = Inr (length sel, s2)"
      using f2 by (simp add: evalFilter_def)
    define rws where "rws = map (\<lambda>k. (Some (rowNumberMapping s2 ! k), outputRows s2 ! k)) [0..<length sel]"
    have fo: "fillOutput (length sel) s2 = Inr rws"
      unfolding rws_def using sl len ol by (intro fillOutput_Inr) (simp_all add: s2_def)
    have body: "getOutputBody inp n s1 = Inr (Return (Some rws) (s2\<lparr>input := None\<rparr>))"
    proof -
      have nz: "length sel \<noteq> 0" using False by simp
      have le: "length sel \<le> length (outputRows s2)" using sl ol by simp
      show ?thesis
        unfolding getOutputBody_def
        apply (simp only: t1 option.case Let_def prod bindE_Inr fst_conv snd_conv)
        apply (simp only: nz le if_False not_True_eq_False not_not ev bindE_Inr fst_conv snd_conv)
        apply (simp only: j2 f2 joinTypeTests JoinType.distinct if_False simp_thms bindE_Inr fo)
        apply (simp only: j1 f1 joinTypeTests simp_thms if_True)
        done
    qed
    have "length (rowNumberMapping s2) = length m + length (drop n (rowNumberMapping s1))"
      by (simp add: s2_def)
    then have lr: "length sel \<le> length (rowNumberMapping s2)"
      using sl len by arith
    have "map fst rws = map Some (take (length sel) (rowNumberMapping s2))"
      unfolding rws_def by (rule nth_equalityI) (simp_all add: lr min_absorb2)
    then have mf: "map fst rws = map Some sel"
      unfolding tk2 .
    from loop [OF body]
    have g: "getOutputLoop (Suc fuel) inp n s1 = Some (Inr (Some rws, s2\<lparr>input := None\<rparr>))" .
    have c: "if sel = [] then Some rws = None
             else \<exists>r. Some rws = Some r \<and> map fst r = map Some sel"
      using False mf by simp
    show ?thesis
      by (intro exI conjI) (rule g, rule in3, rule tk3, rule c)
  qed
  then show ?thesis
    unfolding go sel_def n_def .
qed

lemma table_started:
  "table s = None \<Longrightarrow> table (started s) = Some exampleTable"
  by (simp add: started_def isBlocked_def exampleBuild_def exampleTable_def Let_def)

lemma joinType_started: "joinType (started s) = joinType s"
  by (auto simp: started_def isBlocked_def Let_def split: sum.splits option.splits if_splits)

lemma canReplace_started:
  "canReplaceWithDynamicFilter (started s) = canReplaceWithDynamicFilter s"
  by (auto simp: started_def isBlocked_def Let_def split: sum.splits option.splits if_splits)

lemma table_fed: "table (fed inp s) = table s"
  by (auto simp: fed_def addInput_def prepareLookup_def probeAllRows_def probeActiveRows_def
      Let_def bindE_eq_Inr split: sum.splits option.splits if_splits)

lemma joinType_fed: "joinType (fed inp s) = joinType s"
  by (auto simp: fed_def addInput_def prepareLookup_def probeAllRows_def probeActiveRows_def
      Let_def bindE_eq_Inr split: sum.splits option.splits if_splits)

theorem anti_join_without_filter_output_witness:
  "input antiNoFilterProbe = Some [[Some 1], [Some 3], [None]] \<and>
   nonNullRows antiNoFilterProbe = [True, True, False] \<and>
   activeRows antiNoFilterProbe = [True, True, False] \<and>
   hits (lookup antiNoFilterProbe) = [Some 10, None, None] \<and>
   antiNoFilterRows antiNoFilterProbe 3 = [1] \<and>
   (\<exists>out s'. getOutput 1 True antiNoFilterProbe = Some (Inr (out, s')) \<and>
      input s' = None \<and> take 1 (rowNumberMapping s') = [1] \<and>
      (\<exists>rws. out = Some rws \<and> map fst rws = [Some 1]))"
proof -
  have i: "input antiNoFilterProbe = Some [[Some 1], [Some 3], [None]]"
    by code_simp
  have r: "\<not> replacedWithDynamicFilter antiNoFilterProbe"
    by code_simp
  have t: "table antiNoFilterProbe = Some exampleTable"
    by (simp add: antiNoFilterProbe_def antiJoinProbe_def table_fed table_started
        makeHashProbe_def)
  have d: "numDistinct exampleTable \<noteq> 0"
    by (simp add: exampleTable_def)
  have j: "joinType antiNoFilterProbe = kNullAwareAnti"
    by (simp add: antiNoFilterProbe_def antiJoinProbe_def joinType_fed joinType_started
        makeHashProbe_def)
  have f: "filterP antiNoFilterProbe = None"
    by (simp add: antiNoFilterProbe_def antiJoinProbe_def filterP_fed filterP_started
        makeHashProbe_def)
  have h: "length (hits (lookup antiNoFilterProbe)) = length [[Some 1], [Some 3], [None :: int option]]"
    by code_simp
  have v: "nonNullRows antiNoFilterProbe = [True, True, False] \<and>
      activeRows antiNoFilterProbe = [True, True, False] \<and>
      hits (lookup antiNoFilterProbe) = [Some 10, None, None] \<and>
      antiNoFilterRows antiNoFilterProbe 3 = [1]"
    by code_simp
  have a: "antiNoFilterRows antiNoFilterProbe (length [[Some 1], [Some 3], [None :: int option]]) = [1]"
    by code_simp
  have "\<exists>out s'. getOutput 1 True antiNoFilterProbe = Some (Inr (out, s')) \<and>
      input s' = None \<and> take 1 (rowNumberMapping s') = [1] \<and>
      (\<exists>rws. out = Some rws \<and> map fst rws = [Some 1])"
    using anti_join_without_filter_output [OF i r t d j f h, of 0 True]
    unfolding a by simp
  then show ?thesis
    using i v by blast
qed

end
